theory Spec2Isabelle
  imports Complex_Main
begin

section \<open>The chart builder of interactive\_charting.py\<close>

text \<open>
  The repository is one Python function, \<open>equity_chart_with_signals\<close>. It validates
  its parameters, slices a time-indexed table, pads two caller-supplied style lists in
  place, and assembles a figure of one price trace and one marker trace per signal.

  The embedding keeps three things of the source explicit.
  \<^item> Every \<open>raise\<close>, and every exception of an indexing or lookup expression, is an
    \<open>Inl\<close> result.
  \<^item> The two \<open>while\<close> loops may run forever, so the whole call returns an
    \<open>option\<close>: \<open>None\<close> is a call that never returns.
  \<^item> Python lists are objects. The marker lists are passed by reference and extended
    with \<open>list.extend\<close>, so they live in a store that the call takes and returns.
\<close>

subsection \<open>The store of list objects\<close>

type_synonym ref = nat

record store =
  objs :: "ref \<Rightarrow> string list"
  next_ref :: ref

text \<open>A list display such as \<open>default_symbols = [...]\<close> creates a new object.\<close>

definition alloc :: "string list \<Rightarrow> store \<Rightarrow> ref \<times> store" where
  "alloc v s = (next_ref s, s\<lparr>objs := (objs s)(next_ref s := v), next_ref := Suc (next_ref s)\<rparr>)"

text \<open>\<open>xs.extend(xs)\<close>: the object at \<open>r\<close> is replaced by itself twice over.\<close>

definition extend_self :: "ref \<Rightarrow> store \<Rightarrow> store" where
  "extend_self r s = s\<lparr>objs := (objs s)(r := objs s r @ objs s r)\<rparr>"

text \<open>
  Lines 81-82 and 84-85:
  \<^verbatim>\<open>while len(marker_symbols) < num_signals: marker_symbols.extend(marker_symbols)\<close>
\<close>

partial_function (option) extend_loop :: "ref \<Rightarrow> int \<Rightarrow> store \<Rightarrow> store option" where
  "extend_loop r n s =
     (if int (length (objs s r)) < n then extend_loop r n (extend_self r s) else Some s)"

subsection \<open>The input table\<close>

text \<open>
  A pandas column has one dtype: a signal column is boolean, a price column holds
  values that the function only copies, so their type is a parameter.
\<close>

datatype 'v series = BoolSeries "bool list" | NumSeries "'v list"

record 'v dataframe =
  df_index :: "int list"
  df_columns :: "(string \<times> 'v series) list"



text \<open>The positional slice \<open>xs[lo:hi]\<close> for non-negative bounds.\<close>

definition slice :: "nat \<Rightarrow> nat \<Rightarrow> 'a list \<Rightarrow> 'a list" where
  "slice lo hi xs = drop lo (take hi xs)"

fun slice_series :: "nat \<Rightarrow> nat \<Rightarrow> 'v series \<Rightarrow> 'v series" where
  "slice_series lo hi (BoolSeries bs) = BoolSeries (slice lo hi bs)"
| "slice_series lo hi (NumSeries vs) = NumSeries (slice lo hi vs)"

text \<open>
  \<open>df.loc[start_date:end_date]\<close> on an ascending index: pandas turns the two labels
  into positions, the left bound being the first position whose label is not below
  \<open>start_date\<close> and the right bound the first position whose label is above
  \<open>end_date\<close>, and slices index and columns by position. The table itself is a
  value here, so \<open>.copy()\<close> is the identity.
\<close>

definition left_bound :: "int \<Rightarrow> int list \<Rightarrow> nat" where
  "left_bound start ts = length (takeWhile (\<lambda>t. t < start) ts)"

definition right_bound :: "int \<Rightarrow> int list \<Rightarrow> nat" where
  "right_bound end ts = length (takeWhile (\<lambda>t. t \<le> end) ts)"

definition loc_slice :: "int \<Rightarrow> int \<Rightarrow> 'v dataframe \<Rightarrow> 'v dataframe" where
  "loc_slice start end df =
     (let lo = left_bound start (df_index df); hi = right_bound end (df_index df)
      in \<lparr>df_index = slice lo hi (df_index df),
          df_columns = map (\<lambda>(c, col). (c, slice_series lo hi col)) (df_columns df)\<rparr>)"

subsection \<open>Errors\<close>

text \<open>
  The four \<open>raise ValueError\<close> statements carry the three error kinds of the
  specification; the two messages about the signal names are one kind. The other
  constructors are the exceptions of the expressions after validation.
\<close>

datatype mismatch = NamesAbsent | LengthMismatch nat int

datatype error =
    InvalidChartType
  | MissingColumns "string list"
  | SignalConfigMismatch mismatch
  | KeyError string
  | TypeError
  | IndexError
  | ZeroDivisionError

definition getitem :: "'v dataframe \<Rightarrow> string \<Rightarrow> error + 'v series" where
  "getitem df c = (case map_of (df_columns df) c of None \<Rightarrow> Inl (KeyError c) | Some col \<Rightarrow> Inr col)"

text \<open>
  Boolean indexing, \<open>xs[mask]\<close>. A mask that is not boolean is no mask in pandas;
  the model fails there with \<open>TypeError\<close>.
\<close>

definition mask_list :: "bool list \<Rightarrow> 'a list \<Rightarrow> 'a list" where
  "mask_list m xs = map snd (filter fst (zip m xs))"

fun mask_series :: "bool list \<Rightarrow> 'v series \<Rightarrow> 'v series" where
  "mask_series m (BoolSeries bs) = BoolSeries (mask_list m bs)"
| "mask_series m (NumSeries vs) = NumSeries (mask_list m vs)"

fun as_mask :: "'v series \<Rightarrow> error + bool list" where
  "as_mask (BoolSeries bs) = Inr bs"
| "as_mask (NumSeries vs) = Inl TypeError"

subsection \<open>The figure\<close>

record marker =
  marker_color :: string
  marker_symbol :: string
  marker_size :: nat
  marker_line_width :: nat
  marker_line_color :: string

datatype 'v trace =
    ScatterLines (trace_x: "int list") (trace_y: "'v series") (trace_name: string) nat
  | Candlestick (trace_x: "int list") "'v series" "'v series" "'v series" (trace_y: "'v series")
      (trace_name: string) string string rat
  | ScatterMarkers (trace_x: "int list") (trace_y: "'v series") marker (trace_name: string)

fun is_marker_trace :: "'v trace \<Rightarrow> bool" where
  "is_marker_trace (ScatterMarkers _ _ _ _) = True"
| "is_marker_trace _ = False"

record layout =
  layout_title :: string
  xaxis_title :: string
  yaxis_title :: string
  xaxis_rangeslider_visible :: bool
  xaxis_type :: string
  yaxis_autorange :: bool
  yaxis_fixedrange :: bool
  legend_orientation :: string
  legend_yanchor :: string
  legend_y :: rat
  legend_xanchor :: string
  legend_x :: rat
  template :: string
  width :: nat
  height :: nat
  hovermode :: string

record 'v figure =
  secondary_y :: bool
  traces :: "'v trace list"
  fig_layout :: layout

subsection \<open>The call\<close>

record 'v args =
  df :: "'v dataframe"
  start_date :: int
  end_date :: int
  chart_type :: string
  price_column :: string
  num_signals :: int
  signal_column_names :: "string list option"
  title :: string
  marker_symbols :: "ref option"
  marker_colors :: "ref option"
  candlestick_increasing_color :: string
  candlestick_decreasing_color :: string

definition required_cols :: "string list" where
  "required_cols = [''open'', ''high'', ''low'', ''close'']"

definition missing_cols :: "'v dataframe \<Rightarrow> string list" where
  "missing_cols d = filter (\<lambda>col. col \<notin> set (map fst (df_columns d))) required_cols"

definition default_symbols :: "string list" where
  "default_symbols =
     [''triangle-down'', ''triangle-up'', ''circle'', ''square'', ''diamond'', ''cross'', ''x'']"

definition default_colors :: "string list" where
  "default_colors = [''green'', ''red'', ''blue'', ''purple'', ''orange'', ''teal'', ''magenta'']"

text \<open>\<open>str.capitalize\<close> on ASCII text: the first letter upper case, the rest lower case.\<close>

definition ascii_upper :: "char \<Rightarrow> char" where
  "ascii_upper c =
     (case map_of (zip ''abcdefghijklmnopqrstuvwxyz'' ''ABCDEFGHIJKLMNOPQRSTUVWXYZ'') c of
        None \<Rightarrow> c | Some u \<Rightarrow> u)"

definition ascii_lower :: "char \<Rightarrow> char" where
  "ascii_lower c =
     (case map_of (zip ''ABCDEFGHIJKLMNOPQRSTUVWXYZ'' ''abcdefghijklmnopqrstuvwxyz'') c of
        None \<Rightarrow> c | Some l \<Rightarrow> l)"

fun capitalize :: "string \<Rightarrow> string" where
  "capitalize [] = []"
| "capitalize (c # cs) = ascii_upper c # map ascii_lower cs"

text \<open>Lines 91-112: the price trace, a line or a candlestick.\<close>

definition price_trace :: "'v args \<Rightarrow> 'v dataframe \<Rightarrow> error + 'v trace" where
  "price_trace a d =
     (if chart_type a = ''line'' then
        (case getitem d (price_column a) of
           Inl e \<Rightarrow> Inl e
         | Inr y \<Rightarrow> Inr (ScatterLines (df_index d) y (capitalize (price_column a) @ '' Price'') 2))
      else
        (case getitem d ''open'' of Inl e \<Rightarrow> Inl e | Inr op \<Rightarrow>
         case getitem d ''high'' of Inl e \<Rightarrow> Inl e | Inr hi \<Rightarrow>
         case getitem d ''low'' of Inl e \<Rightarrow> Inl e | Inr lo \<Rightarrow>
         case getitem d ''close'' of Inl e \<Rightarrow> Inl e | Inr cl \<Rightarrow>
           Inr (Candlestick (df_index d) op hi lo cl ''OHLC''
                  (candlestick_increasing_color a) (candlestick_decreasing_color a) (9 / 10))))"

text \<open>\<open>xs[i]\<close> for a list that may be \<open>None\<close> and an index from \<open>range\<close>.\<close>

definition names_at :: "string list option \<Rightarrow> nat \<Rightarrow> error + string" where
  "names_at ns i =
     (case ns of None \<Rightarrow> Inl TypeError
      | Some xs \<Rightarrow> if i < length xs then Inr (xs ! i) else Inl IndexError)"

text \<open>\<open>xs[i % len(xs)]\<close>: the modulus raises on an empty list.\<close>

definition cycle_at :: "string list \<Rightarrow> nat \<Rightarrow> error + string" where
  "cycle_at xs i = (if length xs = 0 then Inl ZeroDivisionError else Inr (xs ! (i mod length xs)))"

text \<open>Lines 116-136: the body of the loop over the signals, for one index.\<close>

definition signal_trace ::
  "'v args \<Rightarrow> 'v dataframe \<Rightarrow> string list \<Rightarrow> string list \<Rightarrow> nat \<Rightarrow> error + 'v trace" where
  "signal_trace a d symbols colors i =
     (case names_at (signal_column_names a) i of Inl e \<Rightarrow> Inl e | Inr signal_col \<Rightarrow>
      case getitem d signal_col of Inl e \<Rightarrow> Inl e | Inr sig \<Rightarrow>
      case as_mask sig of Inl e \<Rightarrow> Inl e | Inr m \<Rightarrow>
      case getitem d (price_column a) of Inl e \<Rightarrow> Inl e | Inr prices \<Rightarrow>
      case cycle_at colors i of Inl e \<Rightarrow> Inl e | Inr color \<Rightarrow>
      case cycle_at symbols i of Inl e \<Rightarrow> Inl e | Inr symbol \<Rightarrow>
        Inr (ScatterMarkers (mask_list m (df_index d)) (mask_series m prices)
               \<lparr>marker_color = color, marker_symbol = symbol, marker_size = 12,
                marker_line_width = 1, marker_line_color = ''black''\<rparr>
               signal_col))"

text \<open>Line 115: \<open>for i in range(num_signals)\<close>, stopping at the first exception.\<close>

fun add_signals ::
  "'v args \<Rightarrow> 'v dataframe \<Rightarrow> string list \<Rightarrow> string list \<Rightarrow> nat list \<Rightarrow> 'v trace list
     \<Rightarrow> error + 'v trace list" where
  "add_signals a d symbols colors [] ts = Inr ts"
| "add_signals a d symbols colors (i # is) ts =
     (case signal_trace a d symbols colors i of
        Inl e \<Rightarrow> Inl e
      | Inr t \<Rightarrow> add_signals a d symbols colors is (ts @ [t]))"

definition update_layout :: "string \<Rightarrow> layout" where
  "update_layout t =
     \<lparr>layout_title = t, xaxis_title = ''Date'', yaxis_title = ''Price'',
      xaxis_rangeslider_visible = False, xaxis_type = ''date'',
      yaxis_autorange = True, yaxis_fixedrange = False,
      legend_orientation = ''h'', legend_yanchor = ''bottom'', legend_y = 102 / 100,
      legend_xanchor = ''right'', legend_x = 1,
      template = ''plotly_white'', width = 1600, height = 1000, hovermode = ''closest''\<rparr>"

text \<open>Lines 87-158: the figure, from the sliced table and the padded style lists.\<close>

definition build_figure ::
  "'v args \<Rightarrow> 'v dataframe \<Rightarrow> string list \<Rightarrow> string list \<Rightarrow> error + 'v figure" where
  "build_figure a d symbols colors =
     (case price_trace a d of Inl e \<Rightarrow> Inl e | Inr p \<Rightarrow>
      case add_signals a d symbols colors [0..<nat (num_signals a)] [p] of
        Inl e \<Rightarrow> Inl e
      | Inr ts \<Rightarrow> Inr \<lparr>secondary_y = True, traces = ts, fig_layout = update_layout (title a)\<rparr>)"

text \<open>Lines 51-65: the validation, in the source's order.\<close>

definition validate :: "'v args \<Rightarrow> error option" where
  "validate a =
     (if chart_type a \<notin> set [''line'', ''candlestick''] then Some InvalidChartType
      else if chart_type a = ''candlestick'' \<and> missing_cols (df a) \<noteq> []
        then Some (MissingColumns (missing_cols (df a)))
      else if num_signals a > 0 \<and> signal_column_names a = None
        then Some (SignalConfigMismatch NamesAbsent)
      else (case signal_column_names a of
              None \<Rightarrow> None
            | Some ns \<Rightarrow>
                if int (length ns) \<noteq> num_signals a
                then Some (SignalConfigMismatch (LengthMismatch (length ns) (num_signals a)))
                else None))"

text \<open>
  Lines 70-85: both default lists are created, each marker variable is bound to the
  caller's object or to the default, and the two loops pad the objects in place.
\<close>

definition resolve_markers :: "'v args \<Rightarrow> store \<Rightarrow> ((ref \<times> ref) \<times> store) option" where
  "resolve_markers a s =
     (let (ds, s1) = alloc default_symbols s;
          (dc, s2) = alloc default_colors s1;
          syms = (case marker_symbols a of None \<Rightarrow> ds | Some r \<Rightarrow> r);
          cols = (case marker_colors a of None \<Rightarrow> dc | Some r \<Rightarrow> r)
      in case extend_loop syms (num_signals a) s2 of
           None \<Rightarrow> None
         | Some s3 \<Rightarrow>
             (case extend_loop cols (num_signals a) s3 of
                None \<Rightarrow> None
              | Some s4 \<Rightarrow> Some ((syms, cols), s4)))"

text \<open>
  The whole call. \<open>None\<close>: the call does not return. \<open>Some (Inl e, s)\<close>: it raises
  \<open>e\<close> and leaves the store \<open>s\<close>. \<open>Some (Inr fig, s)\<close>: it returns \<open>fig\<close>.
\<close>

definition equity_chart_with_signals ::
  "'v args \<Rightarrow> store \<Rightarrow> ((error + 'v figure) \<times> store) option" where
  "equity_chart_with_signals a s =
     (case validate a of
        Some e \<Rightarrow> Some (Inl e, s)
      | None \<Rightarrow>
          (let df_filtered = loc_slice (start_date a) (end_date a) (df a)
           in case resolve_markers a s of
                None \<Rightarrow> None
              | Some ((syms, cols), s') \<Rightarrow>
                  Some (build_figure a df_filtered (objs s' syms) (objs s' cols), s')))"

subsection \<open>The messages of the validation errors\<close>

text \<open>
  The f-strings of lines 52-65. \<open>py_repr_list\<close> is Python's \<open>str\<close> of a list of
  plain names, those without quotes or escapes, which the column names are.
\<close>

fun show_nat :: "nat \<Rightarrow> string" where
  "show_nat n =
     (if n < 10 then [''0123456789'' ! n]
      else show_nat (n div 10) @ [''0123456789'' ! (n mod 10)])"

declare show_nat.simps [simp del]

definition show_int :: "int \<Rightarrow> string" where
  "show_int i = (if i < 0 then ''-'' @ show_nat (nat (- i)) else show_nat (nat i))"

fun join_comma :: "string list \<Rightarrow> string" where
  "join_comma [] = []"
| "join_comma [x] = x"
| "join_comma (x # y # ys) = x @ '', '' @ join_comma (y # ys)"

definition py_repr_list :: "string list \<Rightarrow> string" where
  "py_repr_list xs = ''['' @ join_comma (map (\<lambda>x. [CHR 0x27] @ x @ [CHR 0x27]) xs) @ '']''"

fun value_error_message :: "error \<Rightarrow> string option" where
  "value_error_message InvalidChartType =
     Some (''chart_type must be either 'line' or 'candlestick'' @ [CHR 0x27])"
| "value_error_message (MissingColumns ms) =
     Some (''For candlestick chart, DataFrame must include '' @ py_repr_list required_cols
           @ ''. Missing: '' @ py_repr_list ms)"
| "value_error_message (SignalConfigMismatch NamesAbsent) =
     Some ''signal_column_names must be provided when num_signals > 0''"
| "value_error_message (SignalConfigMismatch (LengthMismatch l n)) =
     Some (''Length of signal_column_names ('' @ show_nat l @ '') must match num_signals (''
           @ show_int n @ '')'')"
| "value_error_message _ = None"

subsection \<open>The specification's vocabulary\<close>






text \<open>
  The style lists as the caller passed them, before the call pads them, and the objects
  that the two marker variables are bound to. A reference of the caller points to an
  object that exists already.
\<close>

definition original_symbols :: "'v args \<Rightarrow> store \<Rightarrow> string list" where
  "original_symbols a s = (case marker_symbols a of None \<Rightarrow> default_symbols | Some r \<Rightarrow> objs s r)"

definition original_colors :: "'v args \<Rightarrow> store \<Rightarrow> string list" where
  "original_colors a s = (case marker_colors a of None \<Rightarrow> default_colors | Some r \<Rightarrow> objs s r)"

definition symbols_ref :: "'v args \<Rightarrow> store \<Rightarrow> ref" where
  "symbols_ref a s = (case marker_symbols a of None \<Rightarrow> next_ref s | Some r \<Rightarrow> r)"

definition colors_ref :: "'v args \<Rightarrow> store \<Rightarrow> ref" where
  "colors_ref a s = (case marker_colors a of None \<Rightarrow> Suc (next_ref s) | Some r \<Rightarrow> r)"

definition valid_refs :: "'v args \<Rightarrow> store \<Rightarrow> bool" where
  "valid_refs a s =
     ((case marker_symbols a of None \<Rightarrow> True | Some r \<Rightarrow> r < next_ref s) \<and>
      (case marker_colors a of None \<Rightarrow> True | Some r \<Rightarrow> r < next_ref s))"

subsection \<open>Example inputs\<close>

text \<open>
  A table of ten rows with the timestamps 1 to 10, the four price columns and two
  signal columns; a second table that lacks \<open>open\<close> and \<open>low\<close>.
\<close>

definition example_df :: "int dataframe" where
  "example_df =
     \<lparr>df_index = [1, 2, 3, 4, 5, 6, 7, 8, 9, 10],
      df_columns =
        [(''open'', NumSeries [10, 11, 12, 13, 14, 15, 16, 17, 18, 19]),
         (''high'', NumSeries [20, 21, 22, 23, 24, 25, 26, 27, 28, 29]),
         (''low'', NumSeries [0, 1, 2, 3, 4, 5, 6, 7, 8, 9]),
         (''close'', NumSeries [11, 12, 13, 14, 15, 16, 17, 18, 19, 20]),
         (''buy'', BoolSeries [False, False, False, True, False, True, False, False, False, False]),
         (''sell'', BoolSeries [True, False, False, False, True, False, False, False, True, False])]\<rparr>"

definition partial_df :: "int dataframe" where
  "partial_df =
     \<lparr>df_index = [1, 2, 3],
      df_columns = [(''close'', NumSeries [11, 12, 13]), (''high'', NumSeries [20, 21, 22])]\<rparr>"

text \<open>A store with two list objects of the caller, at the references 0 and 1.\<close>

definition two_lists :: "string list \<Rightarrow> string list \<Rightarrow> store" where
  "two_lists xs ys = \<lparr>objs = (\<lambda>_. [])(0 := xs, 1 := ys), next_ref = 2\<rparr>"

text \<open>The call with the defaults of the signature, on the rows 3 to 7 of a table.\<close>

definition default_args :: "int dataframe \<Rightarrow> int args" where
  "default_args d =
     \<lparr>df = d, start_date = 3, end_date = 7, chart_type = ''line'', price_column = ''close'',
      num_signals = 0, signal_column_names = None,
      title = ''Interactive Equity Curve with Technical Signals'',
      marker_symbols = None, marker_colors = None,
      candlestick_increasing_color = ''green'', candlestick_decreasing_color = ''red''\<rparr>"

text \<open>The store after lines 71-72 have created the two default lists.\<close>

definition with_defaults :: "store \<Rightarrow> store" where
  "with_defaults s = snd (alloc default_colors (snd (alloc default_symbols s)))"

text \<open>
  The first two checks of the validation pass: the chart type is supported, and a
  candlestick chart finds its four columns.
\<close>

definition chart_ok :: "'v args \<Rightarrow> bool" where
  "chart_ok a = (chart_type a = ''line'' \<or>
     (chart_type a = ''candlestick'' \<and> set required_cols \<subseteq> set (map fst (df_columns (df a)))))"

text \<open>Calls whose signal configuration does not fit, on a valid and on an invalid chart.\<close>

definition three_names_args :: "int args" where
  "three_names_args = (default_args example_df)
     \<lparr>num_signals := 2, signal_column_names := Some [''buy'', ''sell'', ''buy'']\<rparr>"

definition pie_two_signals_args :: "int args" where
  "pie_two_signals_args = (default_args example_df)\<lparr>chart_type := ''pie'', num_signals := 2\<rparr>"

definition stray_name_args :: "int dataframe \<Rightarrow> string \<Rightarrow> int args" where
  "stray_name_args d ct = (default_args d)
     \<lparr>chart_type := ct, signal_column_names := Some [''buy'']\<rparr>"

text \<open>Calls with a negative signal count, with one signal, and with short style lists.\<close>

definition negative_count_args :: "string \<Rightarrow> int args" where
  "negative_count_args ct = (default_args example_df)\<lparr>chart_type := ct, num_signals := - 1\<rparr>"


definition padded_args :: "int args" where
  "padded_args = (default_args example_df)
     \<lparr>num_signals := 5,
      signal_column_names := Some [''buy'', ''sell'', ''buy'', ''sell'', ''buy''],
      marker_symbols := Some 0, marker_colors := Some 1\<rparr>"

definition empty_symbols_args :: "int args" where
  "empty_symbols_args = (default_args example_df)
     \<lparr>num_signals := 1, signal_column_names := Some [''buy''], marker_symbols := Some 0\<rparr>"

definition empty_colors_args :: "int args" where
  "empty_colors_args = (default_args example_df)
     \<lparr>num_signals := 1, signal_column_names := Some [''sell''], marker_colors := Some 1\<rparr>"



section \<open>Properties\<close>

subsection \<open>The padding loop\<close>

text \<open>A loop that returns was started on a non-empty list or had nothing to do.\<close>

lemma extend_loop_Some_nonempty:
  assumes "extend_loop r n s = Some s'"
  shows "objs s r \<noteq> [] \<or> n \<le> 0"
proof (rule extend_loop.raw_induct [where P = "\<lambda>r n s s'. objs s r \<noteq> [] \<or> n \<le> 0", OF _ assms])
  fix loop :: "ref \<Rightarrow> int \<Rightarrow> store \<Rightarrow> store option" and r n s s'
  assume IH: "\<And>r n s s'. loop r n s = Some s' \<Longrightarrow> objs s r \<noteq> [] \<or> n \<le> 0"
    and step: "(if int (length (objs s r)) < n then loop r n (extend_self r s) else Some s) = Some s'"
  show "objs s r \<noteq> [] \<or> n \<le> 0"
  proof (rule ccontr)
    assume "\<not> (objs s r \<noteq> [] \<or> n \<le> 0)"
    then have e: "objs s r = []" and p: "0 < n" by auto
    from e p step have "loop r n (extend_self r s) = Some s'" by simp
    from IH [OF this] e p show False by (simp add: extend_self_def)
  qed
qed

lemma extend_loop_diverges:
  "objs s r = [] \<Longrightarrow> 0 < n \<Longrightarrow> extend_loop r n s = None"
  using extend_loop_Some_nonempty [of r n s] by (cases "extend_loop r n s") auto

lemma length_concat_replicate: "length (concat (replicate m xs)) = m * length xs"
  by (induction m) auto

lemma concat_replicate_double:
  "concat (replicate m (xs @ xs)) = concat (replicate (2 * m) xs)"
  by (induction m) auto

text \<open>
  On a non-empty list the loop returns after \<open>k\<close> doublings, where \<open>k\<close> is the least
  number of doublings that reaches the signal count.
\<close>

lemma extend_loop_terminates:
  assumes "objs s r \<noteq> [] \<or> n \<le> int (length (objs s r))"
  shows "\<exists>k. extend_loop r n s = Some (s\<lparr>objs := (objs s)(r := concat (replicate (2 ^ k) (objs s r)))\<rparr>)
             \<and> n \<le> int (2 ^ k * length (objs s r))
             \<and> (k = 0 \<or> int (2 ^ (k - 1) * length (objs s r)) < n)"
  using assms
proof (induction "nat (n - int (length (objs s r)))" arbitrary: s rule: less_induct)
  case less
  show ?case
  proof (cases "int (length (objs s r)) < n")
    case False
    then have "extend_loop r n s = Some s" by (subst extend_loop.simps) simp
    with False show ?thesis by (intro exI [of _ 0]) simp
  next
    case True
    let ?s = "extend_self r s"
    from True less.prems have ne: "objs s r \<noteq> []" by auto
    then have len: "0 < length (objs s r)" by simp
    have m: "nat (n - int (length (objs ?s r))) < nat (n - int (length (objs s r)))"
      using True len by (simp add: extend_self_def)
    have "objs ?s r \<noteq> [] \<or> n \<le> int (length (objs ?s r))"
      using ne by (simp add: extend_self_def)
    from less.hyps [OF m this] obtain k where
      k1: "extend_loop r n ?s = Some (?s\<lparr>objs := (objs ?s)(r := concat (replicate (2 ^ k) (objs ?s r)))\<rparr>)"
      and k2: "n \<le> int (2 ^ k * length (objs ?s r))"
      and k3: "k = 0 \<or> int (2 ^ (k - 1) * length (objs ?s r)) < n"
      by blast
    have obj: "objs ?s r = objs s r @ objs s r" by (simp add: extend_self_def)
    have dbl: "concat (replicate (2 ^ k) (objs ?s r)) = concat (replicate (2 ^ Suc k) (objs s r))"
      by (simp add: obj concat_replicate_double)
    have st: "?s\<lparr>objs := (objs ?s)(r := concat (replicate (2 ^ k) (objs ?s r)))\<rparr>
              = s\<lparr>objs := (objs s)(r := concat (replicate (2 ^ Suc k) (objs s r)))\<rparr>"
      unfolding dbl by (simp add: extend_self_def)
    have step: "extend_loop r n s = extend_loop r n ?s"
      using True by (subst extend_loop.simps) simp
    have a: "extend_loop r n s = Some (s\<lparr>objs := (objs s)(r := concat (replicate (2 ^ Suc k) (objs s r)))\<rparr>)"
      using step k1 st by simp
    have b: "n \<le> int (2 ^ Suc k * length (objs s r))"
      using k2 by (simp add: obj)
    have c: "int (2 ^ (Suc k - 1) * length (objs s r)) < n"
    proof (cases k)
      case 0
      then show ?thesis using True by simp
    next
      case (Suc j)
      with k3 show ?thesis by (simp add: obj algebra_simps)
    qed
    from a b c show ?thesis by blast
  qed
qed


subsection \<open>Slicing by date\<close>








subsection \<open>Validation\<close>

lemma call_validation_error:
  "validate a = Some e \<Longrightarrow> equity_chart_with_signals a s = Some (Inl e, s)"
  by (simp add: equity_chart_with_signals_def)

lemma missing_cols_set:
  "set (missing_cols d) = set required_cols - set (map fst (df_columns d))"
  by (auto simp: missing_cols_def)

lemma missing_cols_Nil_iff:
  "missing_cols d = [] \<longleftrightarrow> set required_cols \<subseteq> set (map fst (df_columns d))"
  using missing_cols_set [of d] by (metis Diff_eq_empty_iff set_empty)

text \<open>
  Claim C8. For every chart-type string other than \<open>line\<close> and \<open>candlestick\<close> the call
  fails with InvalidChartType, before anything else happens: the store is returned as
  it was passed.
\<close>

theorem unsupported_chart_type_rejected:
  assumes "chart_type a \<noteq> ''line''" and "chart_type a \<noteq> ''candlestick''"
  shows "equity_chart_with_signals a s = Some (Inl InvalidChartType, s)"
  using assms by (intro call_validation_error) (simp add: validate_def)

theorem unsupported_chart_type_rejected_witness:
  "chart_type ((default_args example_df)\<lparr>chart_type := ''bar''\<rparr>) \<noteq> ''line''
   \<and> chart_type ((default_args example_df)\<lparr>chart_type := ''bar''\<rparr>) \<noteq> ''candlestick''
   \<and> equity_chart_with_signals ((default_args example_df)\<lparr>chart_type := ''bar''\<rparr>)
        (two_lists [''star''] [''red''])
      = Some (Inl InvalidChartType, two_lists [''star''] [''red''])"
  using unsupported_chart_type_rejected
    [of "(default_args example_df)\<lparr>chart_type := ''bar''\<rparr>" "two_lists [''star''] [''red'']"]
  by (simp add: default_args_def)

text \<open>
  Claim C5. For every call with chart type \<open>candlestick\<close> on a table that lacks one of
  the columns open, high, low, close, the call fails with MissingColumns; the error
  carries exactly the required columns that the table lacks, and its message ends with
  the list of them.
\<close>

theorem candlestick_missing_columns:
  assumes "chart_type a = ''candlestick''"
    and "\<not> set required_cols \<subseteq> set (map fst (df_columns (df a)))"
  shows "equity_chart_with_signals a s = Some (Inl (MissingColumns (missing_cols (df a))), s)
         \<and> set (missing_cols (df a)) = set required_cols - set (map fst (df_columns (df a)))
         \<and> value_error_message (MissingColumns (missing_cols (df a)))
           = Some (''For candlestick chart, DataFrame must include ''
                   @ ''['open', 'high', 'low', 'close']. Missing: ''
                   @ py_repr_list (missing_cols (df a)))"
proof -
  from assms(2) have "missing_cols (df a) \<noteq> []" by (simp add: missing_cols_Nil_iff)
  with assms(1) have "validate a = Some (MissingColumns (missing_cols (df a)))"
    by (simp add: validate_def)
  then have "equity_chart_with_signals a s = Some (Inl (MissingColumns (missing_cols (df a))), s)"
    by (rule call_validation_error)
  moreover have "py_repr_list required_cols = ''['open', 'high', 'low', 'close']''"
    by (simp add: py_repr_list_def required_cols_def)
  ultimately show ?thesis by (simp add: missing_cols_set)
qed

theorem candlestick_missing_columns_witness:
  "chart_type ((default_args partial_df)\<lparr>chart_type := ''candlestick''\<rparr>) = ''candlestick''
   \<and> \<not> set required_cols \<subseteq> set (map fst (df_columns partial_df))
   \<and> equity_chart_with_signals ((default_args partial_df)\<lparr>chart_type := ''candlestick''\<rparr>)
        (two_lists [''star''] [''red''])
      = Some (Inl (MissingColumns [''open'', ''low'']), two_lists [''star''] [''red''])
   \<and> value_error_message (MissingColumns [''open'', ''low''])
      = Some (''For candlestick chart, DataFrame must include ''
              @ ''['open', 'high', 'low', 'close']. Missing: ['open', 'low']'')"
  using candlestick_missing_columns
    [of "(default_args partial_df)\<lparr>chart_type := ''candlestick''\<rparr>" "two_lists [''star''] [''red'']"]
  by (simp add: default_args_def partial_df_def required_cols_def missing_cols_def py_repr_list_def)
lemma validate_signals:
  assumes "chart_ok a"
  shows "validate a =
     (if num_signals a > 0 \<and> signal_column_names a = None
        then Some (SignalConfigMismatch NamesAbsent)
      else (case signal_column_names a of
              None \<Rightarrow> None
            | Some ns \<Rightarrow>
                if int (length ns) \<noteq> num_signals a
                then Some (SignalConfigMismatch (LengthMismatch (length ns) (num_signals a)))
                else None))"
  using assms by (auto simp: chart_ok_def validate_def missing_cols_Nil_iff)

text \<open>
  Claim C4, as amended. For every call that passes the chart-type check and the
  candlestick column check, with a signal count greater than 0: if the list of signal
  names is absent, or its length differs from the signal count, the call fails with
  SignalConfigMismatch, and the store is as it was passed, nothing having been built.
\<close>

theorem signal_config_mismatch:
  assumes "chart_ok a" and "0 < num_signals a"
    and "signal_column_names a = None
         \<or> (\<exists>ns. signal_column_names a = Some ns \<and> int (length ns) \<noteq> num_signals a)"
  shows "equity_chart_with_signals a s =
         Some (Inl (SignalConfigMismatch
                 (case signal_column_names a of
                    None \<Rightarrow> NamesAbsent
                  | Some ns \<Rightarrow> LengthMismatch (length ns) (num_signals a))), s)"
  using assms(2,3)
  by (intro call_validation_error) (auto simp: validate_signals [OF assms(1)])

theorem signal_config_mismatch_witness:
  "chart_ok three_names_args \<and> 0 < num_signals three_names_args
   \<and> signal_column_names three_names_args = Some [''buy'', ''sell'', ''buy'']
   \<and> int (length [''buy'', ''sell'', ''buy'']) \<noteq> num_signals three_names_args
   \<and> equity_chart_with_signals three_names_args (two_lists [''star''] [''red''])
      = Some (Inl (SignalConfigMismatch (LengthMismatch 3 2)), two_lists [''star''] [''red''])"
  using signal_config_mismatch [of three_names_args "two_lists [''star''] [''red'']"]
  by (simp add: three_names_args_def default_args_def chart_ok_def)

text \<open>
  Claim C4 as stated fails: with the chart type \<open>pie\<close>, a signal count of 2 and no
  list of names, the call fails with InvalidChartType, not with SignalConfigMismatch.
\<close>

theorem signal_mismatch_after_chart_type_counterexample:
  "0 < num_signals pie_two_signals_args
   \<and> signal_column_names pie_two_signals_args = None
   \<and> equity_chart_with_signals pie_two_signals_args (two_lists [''star''] [''red''])
      = Some (Inl InvalidChartType, two_lists [''star''] [''red''])"
  by (simp add: pie_two_signals_args_def default_args_def equity_chart_with_signals_def validate_def)

text \<open>
  Claim C9, as amended. For every call that passes the chart-type check and the
  candlestick column check, with a signal count of 0 and a list of signal names that is
  supplied and not empty, the call fails with the length-mismatch error.
\<close>

theorem names_without_signals_rejected:
  assumes "chart_ok a" and "num_signals a = 0"
    and "signal_column_names a = Some ns" and "ns \<noteq> []"
  shows "equity_chart_with_signals a s =
         Some (Inl (SignalConfigMismatch (LengthMismatch (length ns) 0)), s)"
  using assms(2-4)
  by (intro call_validation_error) (simp add: validate_signals [OF assms(1)])

theorem names_without_signals_rejected_witness:
  "chart_ok (stray_name_args example_df ''line'')
   \<and> num_signals (stray_name_args example_df ''line'') = 0
   \<and> signal_column_names (stray_name_args example_df ''line'') = Some [''buy'']
   \<and> [''buy''] \<noteq> []
   \<and> equity_chart_with_signals (stray_name_args example_df ''line'') (two_lists [''star''] [''red''])
      = Some (Inl (SignalConfigMismatch (LengthMismatch 1 0)), two_lists [''star''] [''red''])"
  using names_without_signals_rejected
    [of "stray_name_args example_df ''line''" "[''buy'']" "two_lists [''star''] [''red'']"]
  by (simp add: stray_name_args_def default_args_def chart_ok_def)

text \<open>
  Claim C9 as stated fails: a candlestick call on a table without \<open>open\<close> and
  \<open>low\<close>, with a signal count of 0 and one signal name, fails with MissingColumns.
\<close>

theorem names_without_signals_counterexample:
  "num_signals (stray_name_args partial_df ''candlestick'') = 0
   \<and> signal_column_names (stray_name_args partial_df ''candlestick'') = Some [''buy'']
   \<and> equity_chart_with_signals (stray_name_args partial_df ''candlestick'')
        (two_lists [''star''] [''red''])
      = Some (Inl (MissingColumns [''open'', ''low'']), two_lists [''star''] [''red''])"
  by (simp add: stray_name_args_def default_args_def equity_chart_with_signals_def validate_def
      missing_cols_def required_cols_def partial_df_def)

subsection \<open>The successful call\<close>




lemma getitem_loc_slice:
  "getitem (loc_slice st en d) c =
     (case getitem d c of
        Inl e \<Rightarrow> Inl e
      | Inr col \<Rightarrow> Inr (slice_series (left_bound st (df_index d)) (right_bound en (df_index d)) col))"
  by (simp add: getitem_def loc_slice_def Let_def map_of_map split: option.splits)









lemma call_after_validation:
  assumes "validate a = None" "resolve_markers a s = Some ((syms, cols), s')"
  shows "equity_chart_with_signals a s =
         Some (build_figure a (loc_slice (start_date a) (end_date a) (df a))
                 (objs s' syms) (objs s' cols), s')"
  using assms by (simp add: equity_chart_with_signals_def Let_def)

subsection \<open>The resolved marker lists\<close>

lemma resolve_markers_unfold:
  "resolve_markers a s =
     (case extend_loop (symbols_ref a s) (num_signals a) (with_defaults s) of
        None \<Rightarrow> None
      | Some s3 \<Rightarrow>
          (case extend_loop (colors_ref a s) (num_signals a) s3 of
             None \<Rightarrow> None
           | Some s4 \<Rightarrow> Some ((symbols_ref a s, colors_ref a s), s4)))"
  by (cases "marker_symbols a"; cases "marker_colors a")
     (simp_all add: resolve_markers_def with_defaults_def alloc_def symbols_ref_def
        colors_ref_def Let_def split: option.splits)

lemma with_defaults_simps:
  "next_ref (with_defaults s) = Suc (Suc (next_ref s))"
  "r < next_ref s \<Longrightarrow> objs (with_defaults s) r = objs s r"
  "objs (with_defaults s) (next_ref s) = default_symbols"
  "objs (with_defaults s) (Suc (next_ref s)) = default_colors"
  by (simp_all add: with_defaults_def alloc_def)

lemma original_symbols_bound:
  "valid_refs a s \<Longrightarrow> objs (with_defaults s) (symbols_ref a s) = original_symbols a s"
  by (auto simp: valid_refs_def symbols_ref_def original_symbols_def with_defaults_simps
      split: option.splits)

lemma original_colors_bound:
  "valid_refs a s \<Longrightarrow> objs (with_defaults s) (colors_ref a s) = original_colors a s"
  by (auto simp: valid_refs_def colors_ref_def original_colors_def with_defaults_simps
      split: option.splits)

lemma aliased_originals:
  "valid_refs a s \<Longrightarrow> colors_ref a s = symbols_ref a s \<Longrightarrow> original_colors a s = original_symbols a s"
  by (auto simp: valid_refs_def colors_ref_def symbols_ref_def original_colors_def
      original_symbols_def split: option.splits)

lemma resolve_markers_result:
  assumes v: "valid_refs a s"
    and sy: "original_symbols a s \<noteq> [] \<or> num_signals a \<le> 0"
    and co: "original_colors a s \<noteq> [] \<or> num_signals a \<le> 0"
  shows "\<exists>k j s'. resolve_markers a s = Some ((symbols_ref a s, colors_ref a s), s')
      \<and> objs s' (symbols_ref a s) = concat (replicate (2 ^ k) (original_symbols a s))
      \<and> (k = 0 \<or> int (2 ^ (k - 1) * length (original_symbols a s)) < num_signals a)
      \<and> num_signals a \<le> int (length (objs s' (symbols_ref a s)))
      \<and> objs s' (colors_ref a s) = concat (replicate (2 ^ j) (original_colors a s))
      \<and> (j = 0 \<or> int (2 ^ (j - 1) * length (original_colors a s)) < num_signals a)
      \<and> num_signals a \<le> int (length (objs s' (colors_ref a s)))
      \<and> s' = (with_defaults s)\<lparr>objs := (objs (with_defaults s))
            (symbols_ref a s := concat (replicate (2 ^ k) (original_symbols a s)),
             colors_ref a s := concat (replicate (2 ^ j) (original_colors a s)))\<rparr>"
proof -
  let ?n = "num_signals a" and ?sr = "symbols_ref a s" and ?cr = "colors_ref a s"
  let ?s2 = "with_defaults s"
  let ?os = "original_symbols a s" and ?oc = "original_colors a s"
  have os: "objs ?s2 ?sr = ?os" using v by (rule original_symbols_bound)
  have oc: "objs ?s2 ?cr = ?oc" using v by (rule original_colors_bound)
  have "objs ?s2 ?sr \<noteq> [] \<or> ?n \<le> int (length (objs ?s2 ?sr))" using sy os by auto
  from extend_loop_terminates [OF this] obtain k where
    l1: "extend_loop ?sr ?n ?s2 = Some (?s2\<lparr>objs := (objs ?s2)(?sr := concat (replicate (2 ^ k) ?os))\<rparr>)"
    and k2: "?n \<le> int (2 ^ k * length ?os)"
    and k3: "k = 0 \<or> int (2 ^ (k - 1) * length ?os) < ?n"
    unfolding os by blast
  let ?X = "concat (replicate (2 ^ k) ?os)"
  let ?s3 = "?s2\<lparr>objs := (objs ?s2)(?sr := ?X)\<rparr>"
  have lenX: "?n \<le> int (length ?X)" using k2 by (simp add: length_concat_replicate)
  have sX: "objs ?s3 ?sr = ?X" by simp
  show ?thesis
  proof (cases "?cr = ?sr")
    case True
    have eq: "?oc = ?os" using aliased_originals [OF v True] .
    have obj3: "objs ?s3 ?cr = ?X" unfolding True by simp
    have "extend_loop ?cr ?n ?s3 = Some ?s3"
      using lenX obj3 by (subst extend_loop.simps) simp
    with l1 have c1: "resolve_markers a s = Some ((?sr, ?cr), ?s3)"
      by (simp add: resolve_markers_unfold)
    have c4: "?n \<le> int (length (objs ?s3 ?sr))" using lenX unfolding sX .
    have c5: "objs ?s3 ?cr = concat (replicate (2 ^ k) ?oc)" unfolding obj3 eq ..
    have c6: "k = 0 \<or> int (2 ^ (k - 1) * length ?oc) < ?n" using k3 unfolding eq .
    have c7: "?n \<le> int (length (objs ?s3 ?cr))" using lenX unfolding obj3 .
    have c8: "?s3 = ?s2\<lparr>objs := (objs ?s2)(?sr := ?X, ?cr := concat (replicate (2 ^ k) ?oc))\<rparr>"
      unfolding True eq by simp
    show ?thesis
      apply (rule exI [of _ k], rule exI [of _ k], rule exI [of _ ?s3])
      using c1 sX k3 c4 c5 c6 c7 c8 by blast
  next
    case False
    then have obj3: "objs ?s3 ?cr = ?oc" using oc by simp
    have "objs ?s3 ?cr \<noteq> [] \<or> ?n \<le> int (length (objs ?s3 ?cr))" using co obj3 by auto
    from extend_loop_terminates [OF this] obtain j where
      l2: "extend_loop ?cr ?n ?s3 = Some (?s3\<lparr>objs := (objs ?s3)(?cr := concat (replicate (2 ^ j) ?oc))\<rparr>)"
      and j2: "?n \<le> int (2 ^ j * length ?oc)"
      and j3: "j = 0 \<or> int (2 ^ (j - 1) * length ?oc) < ?n"
      unfolding obj3 by blast
    let ?Y = "concat (replicate (2 ^ j) ?oc)"
    let ?s4 = "?s3\<lparr>objs := (objs ?s3)(?cr := ?Y)\<rparr>"
    from l1 l2 have c1: "resolve_markers a s = Some ((?sr, ?cr), ?s4)"
      by (simp add: resolve_markers_unfold)
    have a1: "objs ?s4 ?sr = ?X" using False by simp
    have a2: "objs ?s4 ?cr = ?Y" by simp
    have lenY: "?n \<le> int (length ?Y)" using j2 by (simp add: length_concat_replicate)
    have c4: "?n \<le> int (length (objs ?s4 ?sr))" using lenX unfolding a1 .
    have c7: "?n \<le> int (length (objs ?s4 ?cr))" using lenY unfolding a2 .
    have c8: "?s4 = ?s2\<lparr>objs := (objs ?s2)(?sr := ?X, ?cr := ?Y)\<rparr>" by simp
    show ?thesis
      apply (rule exI [of _ k], rule exI [of _ j], rule exI [of _ ?s4])
      using c1 a1 k3 c4 a2 j3 c7 c8 by blast
  qed
qed


subsection \<open>Evaluating the example calls\<close>

lemma extend_loop_done:
  "n \<le> int (length (objs s r)) \<Longrightarrow> extend_loop r n s = Some s"
  by (subst extend_loop.simps) simp

lemma extend_loop_step:
  "int (length (objs s r)) < n \<Longrightarrow> extend_loop r n s = extend_loop r n (extend_self r s)"
  by (subst extend_loop.simps) simp

lemmas eval_call =
  equity_chart_with_signals_def validate_def resolve_markers_def alloc_def extend_loop_done
  extend_loop_step extend_self_def build_figure_def price_trace_def signal_trace_def
  names_at_def cycle_at_def getitem_def as_mask.simps mask_list_def
  loc_slice_def left_bound_def right_bound_def slice_def
  default_args_def example_df_def two_lists_def with_defaults_def
  default_symbols_def default_colors_def ascii_upper_def ascii_lower_def Let_def



subsection \<open>The price trace\<close>







subsection \<open>The marker traces\<close>





subsection \<open>A negative signal count\<close>

lemma getitem_present:
  assumes "c \<in> set (map fst (df_columns d))"
  shows "\<exists>col. getitem (loc_slice st en d) c = Inr col"
proof -
  from assms have "map_of (df_columns d) c \<noteq> None" by (simp add: map_of_eq_None_iff)
  then obtain col where "getitem d c = Inr col" by (auto simp: getitem_def)
  then show ?thesis by (simp add: getitem_loc_slice)
qed

lemma price_trace_present:
  assumes "(chart_type a = ''line'' \<and> price_column a \<in> set (map fst (df_columns d)))
         \<or> (chart_type a = ''candlestick'' \<and> set required_cols \<subseteq> set (map fst (df_columns d)))"
  shows "\<exists>p. price_trace a (loc_slice st en d) = Inr p \<and> \<not> is_marker_trace p"
  using assms
proof
  assume l: "chart_type a = ''line'' \<and> price_column a \<in> set (map fst (df_columns d))"
  from getitem_present [of "price_column a" d st en] l obtain col where
    "getitem (loc_slice st en d) (price_column a) = Inr col" by blast
  with l show ?thesis by (simp add: price_trace_def)
next
  assume c: "chart_type a = ''candlestick'' \<and> set required_cols \<subseteq> set (map fst (df_columns d))"
  then have "''open'' \<in> set (map fst (df_columns d))" "''high'' \<in> set (map fst (df_columns d))"
    "''low'' \<in> set (map fst (df_columns d))" "''close'' \<in> set (map fst (df_columns d))"
    by (auto simp: required_cols_def)
  from this [THEN getitem_present, of st en] obtain op hi lo cl where
    "getitem (loc_slice st en d) ''open'' = Inr op" "getitem (loc_slice st en d) ''high'' = Inr hi"
    "getitem (loc_slice st en d) ''low'' = Inr lo" "getitem (loc_slice st en d) ''close'' = Inr cl"
    by blast
  with c show ?thesis by (simp add: price_trace_def)
qed

lemma resolve_markers_idle:
  assumes "num_signals a \<le> 0"
  shows "resolve_markers a s = Some ((symbols_ref a s, colors_ref a s), with_defaults s)"
proof -
  have "extend_loop r (num_signals a) (with_defaults s) = Some (with_defaults s)" for r
    using assms by (intro extend_loop_done) simp
  then show ?thesis by (simp add: resolve_markers_unfold)
qed

text \<open>
  Claim C10, as amended. For every call with a negative signal count and no list of
  signal names, whose chart type is supported and whose price trace finds its columns
  (the four OHLC columns of a candlestick chart, the price column of a line chart): no
  validation error is raised, and the call returns a figure whose only trace is the
  price trace; the lists of the caller are untouched.
\<close>

theorem negative_signal_count_accepted:
  assumes "num_signals a < 0" and "signal_column_names a = None"
    and "(chart_type a = ''line'' \<and> price_column a \<in> set (map fst (df_columns (df a))))
       \<or> (chart_type a = ''candlestick''
            \<and> set required_cols \<subseteq> set (map fst (df_columns (df a))))"
  shows "validate a = None \<and>
     (\<exists>p. equity_chart_with_signals a s =
            Some (Inr \<lparr>secondary_y = True, traces = [p], fig_layout = update_layout (title a)\<rparr>,
                  with_defaults s)
         \<and> \<not> is_marker_trace p)
     \<and> (\<forall>r < next_ref s. objs (with_defaults s) r = objs s r)"
proof -
  let ?d = "loc_slice (start_date a) (end_date a) (df a)"
  from assms(3) have "chart_ok a" by (auto simp: chart_ok_def)
  then have val: "validate a = None" using assms(1,2) by (simp add: validate_signals)
  have res: "resolve_markers a s = Some ((symbols_ref a s, colors_ref a s), with_defaults s)"
    using assms(1) by (intro resolve_markers_idle) simp
  from price_trace_present [OF assms(3)] obtain p where
    p: "price_trace a ?d = Inr p" "\<not> is_marker_trace p" by blast
  have "nat (num_signals a) = 0" using assms(1) by simp
  then have "build_figure a ?d sy co =
      Inr \<lparr>secondary_y = True, traces = [p], fig_layout = update_layout (title a)\<rparr>" for sy co
    using p(1) by (simp add: build_figure_def)
  with call_after_validation [OF val res] p(2) val show ?thesis
    by (simp add: with_defaults_simps)
qed

theorem negative_signal_count_accepted_witness:
  "num_signals (negative_count_args ''line'') < 0
   \<and> signal_column_names (negative_count_args ''line'') = None
   \<and> chart_type (negative_count_args ''line'') = ''line''
   \<and> price_column (negative_count_args ''line'') \<in> set (map fst (df_columns example_df))
   \<and> validate (negative_count_args ''line'') = None
   \<and> map_option (\<lambda>r. map_sum id (\<lambda>f. length (traces f)) (fst r))
        (equity_chart_with_signals (negative_count_args ''line'') (two_lists [''star''] [''red'']))
      = Some (Inr 1)"
proof -
  let ?a = "negative_count_args ''line''"
  have h: "num_signals ?a < 0" "signal_column_names ?a = None" "chart_type ?a = ''line''"
    "price_column ?a \<in> set (map fst (df_columns (df ?a)))"
    by (simp_all add: negative_count_args_def default_args_def example_df_def)
  from negative_signal_count_accepted [of ?a "two_lists [''star''] [''red'']"] h
  obtain p where v: "validate ?a = None"
    and c: "equity_chart_with_signals ?a (two_lists [''star''] [''red'']) =
       Some (Inr \<lparr>secondary_y = True, traces = [p], fig_layout = update_layout (title ?a)\<rparr>,
             with_defaults (two_lists [''star''] [''red'']))"
    by auto
  have e: "df ?a = example_df" by (simp add: negative_count_args_def default_args_def)
  from h [unfolded e] v c show ?thesis by simp
qed

text \<open>
  Claim C10 as stated fails: with the chart type \<open>pie\<close>, a signal count of \<open>-1\<close> and
  no list of names, the validation raises InvalidChartType.
\<close>

theorem negative_signal_count_counterexample:
  "num_signals (negative_count_args ''pie'') < 0
   \<and> signal_column_names (negative_count_args ''pie'') = None
   \<and> validate (negative_count_args ''pie'') = Some InvalidChartType
   \<and> equity_chart_with_signals (negative_count_args ''pie'') (two_lists [''star''] [''red''])
      = Some (Inl InvalidChartType, two_lists [''star''] [''red''])"
  by (simp add: negative_count_args_def default_args_def equity_chart_with_signals_def validate_def)

subsection \<open>The marker lists of the caller\<close>

text \<open>
  The padding of the style lists where the loops end. For every signal count \<open>n\<close>
  and every configuration in which each style list is not empty or \<open>n\<close> is not
  positive: a list that is
  not supplied is the default palette of 7 entries; each list is replaced by \<open>2 ^ k\<close>
  copies of itself, where \<open>k\<close> is the least number of doublings that makes its length
  at least \<open>n\<close> (none if it is long enough), so it is never truncated and may
  overshoot; and for every signal index \<open>i\<close> below \<open>n\<close> the style is the element at
  position \<open>i\<close> modulo the final length, which is in range. Two variables bound to
  one list object of the caller are covered: the first loop pads the object, the second
  finds it long enough.
\<close>

theorem marker_lists_resolved:
  assumes "valid_refs a s"
    and "original_symbols a s \<noteq> [] \<or> num_signals a \<le> 0"
    and "original_colors a s \<noteq> [] \<or> num_signals a \<le> 0"
  shows "length default_symbols = 7 \<and> length default_colors = 7
     \<and> (marker_symbols a = None \<longrightarrow> original_symbols a s = default_symbols)
     \<and> (marker_colors a = None \<longrightarrow> original_colors a s = default_colors)
     \<and> (\<exists>k j s'. resolve_markers a s = Some ((symbols_ref a s, colors_ref a s), s')
          \<and> objs s' (symbols_ref a s) = concat (replicate (2 ^ k) (original_symbols a s))
          \<and> (k = 0 \<or> int (2 ^ (k - 1) * length (original_symbols a s)) < num_signals a)
          \<and> num_signals a \<le> int (length (objs s' (symbols_ref a s)))
          \<and> objs s' (colors_ref a s) = concat (replicate (2 ^ j) (original_colors a s))
          \<and> (j = 0 \<or> int (2 ^ (j - 1) * length (original_colors a s)) < num_signals a)
          \<and> num_signals a \<le> int (length (objs s' (colors_ref a s)))
          \<and> (\<forall>i. int i < num_signals a \<longrightarrow>
                cycle_at (objs s' (symbols_ref a s)) i
                  = Inr (objs s' (symbols_ref a s) ! (i mod length (objs s' (symbols_ref a s))))
              \<and> i mod length (objs s' (symbols_ref a s)) < length (objs s' (symbols_ref a s))
              \<and> cycle_at (objs s' (colors_ref a s)) i
                  = Inr (objs s' (colors_ref a s) ! (i mod length (objs s' (colors_ref a s))))
              \<and> i mod length (objs s' (colors_ref a s)) < length (objs s' (colors_ref a s))))"
proof -
  let ?n = "num_signals a" and ?sr = "symbols_ref a s" and ?cr = "colors_ref a s"
  from resolve_markers_result [OF assms] obtain k j s' where
    r: "resolve_markers a s = Some ((?sr, ?cr), s')"
    and fs: "objs s' ?sr = concat (replicate (2 ^ k) (original_symbols a s))"
    and ks: "k = 0 \<or> int (2 ^ (k - 1) * length (original_symbols a s)) < ?n"
    and ls: "?n \<le> int (length (objs s' ?sr))"
    and fc: "objs s' ?cr = concat (replicate (2 ^ j) (original_colors a s))"
    and kc: "j = 0 \<or> int (2 ^ (j - 1) * length (original_colors a s)) < ?n"
    and lc: "?n \<le> int (length (objs s' ?cr))"
    by blast
  have idx: "cycle_at xs i = Inr (xs ! (i mod length xs)) \<and> i mod length xs < length xs"
    if "?n \<le> int (length xs)" "int i < ?n" for xs i
  proof -
    from that have "0 < length xs" by linarith
    then show ?thesis by (simp add: cycle_at_def)
  qed
  have all: "\<forall>i. int i < ?n \<longrightarrow>
        cycle_at (objs s' ?sr) i = Inr (objs s' ?sr ! (i mod length (objs s' ?sr)))
      \<and> i mod length (objs s' ?sr) < length (objs s' ?sr)
      \<and> cycle_at (objs s' ?cr) i = Inr (objs s' ?cr ! (i mod length (objs s' ?cr)))
      \<and> i mod length (objs s' ?cr) < length (objs s' ?cr)"
    using idx [OF ls] idx [OF lc] by blast
  have d: "length default_symbols = 7" "length default_colors = 7"
    by (simp_all add: default_symbols_def default_colors_def)
  have o: "marker_symbols a = None \<longrightarrow> original_symbols a s = default_symbols"
    "marker_colors a = None \<longrightarrow> original_colors a s = default_colors"
    by (simp_all add: original_symbols_def original_colors_def)
  from r fs ks ls fc kc lc all have
    "\<exists>k j s'. resolve_markers a s = Some ((?sr, ?cr), s')
          \<and> objs s' ?sr = concat (replicate (2 ^ k) (original_symbols a s))
          \<and> (k = 0 \<or> int (2 ^ (k - 1) * length (original_symbols a s)) < ?n)
          \<and> ?n \<le> int (length (objs s' ?sr))
          \<and> objs s' ?cr = concat (replicate (2 ^ j) (original_colors a s))
          \<and> (j = 0 \<or> int (2 ^ (j - 1) * length (original_colors a s)) < ?n)
          \<and> ?n \<le> int (length (objs s' ?cr))
          \<and> (\<forall>i. int i < ?n \<longrightarrow>
                cycle_at (objs s' ?sr) i = Inr (objs s' ?sr ! (i mod length (objs s' ?sr)))
              \<and> i mod length (objs s' ?sr) < length (objs s' ?sr)
              \<and> cycle_at (objs s' ?cr) i = Inr (objs s' ?cr ! (i mod length (objs s' ?cr)))
              \<and> i mod length (objs s' ?cr) < length (objs s' ?cr))"
    by blast
  with d o show ?thesis by blast
qed

lemma padded_resolved:
  "map_option (\<lambda>r. (fst r, objs (snd r) 0, objs (snd r) 1))
     (resolve_markers padded_args (two_lists [''star'', ''hexagon''] [''red'']))
   = Some ((0, 1),
       [''star'', ''hexagon'', ''star'', ''hexagon'', ''star'', ''hexagon'', ''star'', ''hexagon''],
       [''red'', ''red'', ''red'', ''red'', ''red'', ''red'', ''red'', ''red''])"
  by (simp add: eval_call padded_args_def)

text \<open>A symbol list of length 2 and a color list of length 1 with 5 signals: both end at length 8.\<close>

theorem marker_lists_resolved_witness:
  "valid_refs padded_args (two_lists [''star'', ''hexagon''] [''red''])
   \<and> original_symbols padded_args (two_lists [''star'', ''hexagon''] [''red'']) = [''star'', ''hexagon'']
   \<and> original_colors padded_args (two_lists [''star'', ''hexagon''] [''red'']) = [''red'']
   \<and> num_signals padded_args = 5
   \<and> (\<exists>s'. resolve_markers padded_args (two_lists [''star'', ''hexagon''] [''red''])
             = Some ((0, 1), s')
        \<and> 5 \<le> length (objs s' 0) \<and> 5 \<le> length (objs s' 1))
   \<and> map_option (\<lambda>r. (fst r, objs (snd r) 0, objs (snd r) 1))
        (resolve_markers padded_args (two_lists [''star'', ''hexagon''] [''red'']))
      = Some ((0, 1),
          [''star'', ''hexagon'', ''star'', ''hexagon'', ''star'', ''hexagon'', ''star'', ''hexagon''],
          [''red'', ''red'', ''red'', ''red'', ''red'', ''red'', ''red'', ''red''])"
proof -
  let ?S = "two_lists [''star'', ''hexagon''] [''red'']"
  have v: "valid_refs padded_args ?S"
    by (simp add: valid_refs_def padded_args_def two_lists_def)
  have os: "original_symbols padded_args ?S = [''star'', ''hexagon'']"
    and oc: "original_colors padded_args ?S = [''red'']"
    and n: "num_signals padded_args = 5"
    and sr: "symbols_ref padded_args ?S = 0" and cr: "colors_ref padded_args ?S = 1"
    by (simp_all add: original_symbols_def original_colors_def symbols_ref_def colors_ref_def
        padded_args_def two_lists_def)
  have "original_symbols padded_args ?S \<noteq> [] \<or> num_signals padded_args \<le> 0"
    "original_colors padded_args ?S \<noteq> [] \<or> num_signals padded_args \<le> 0"
    by (simp_all add: os oc)
  from marker_lists_resolved [OF v this] obtain s' where
    "resolve_markers padded_args ?S = Some ((0, 1), s')"
    "5 \<le> length (objs s' 0)" "5 \<le> length (objs s' 1)"
    unfolding sr cr n by auto
  with v os oc n padded_resolved show ?thesis by blast
qed

text \<open>
  Claim C1 fails on the code. The claim has every short style list padded by doubling
  until it is at least as long as the signal count, and then indexed in range. The call
  with one signal and an empty symbol list passes the validation, and the loop of lines
  81-82, which is there to pad the list, doubles the empty list forever: the list is
  never resolved, no style is ever read, and the call does not return.
\<close>

theorem empty_symbols_never_resolved:
  "original_symbols empty_symbols_args (two_lists [] [''red'']) = []
   \<and> 0 < num_signals empty_symbols_args
   \<and> validate empty_symbols_args = None
   \<and> resolve_markers empty_symbols_args (two_lists [] [''red'']) = None
   \<and> equity_chart_with_signals empty_symbols_args (two_lists [] [''red'']) = None"
proof -
  let ?S = "two_lists [] [''red'']"
  have v: "validate empty_symbols_args = None"
    by (simp add: validate_def empty_symbols_args_def default_args_def)
  have "extend_loop 0 1 (with_defaults ?S) = None"
    by (rule extend_loop_diverges) (simp_all add: with_defaults_def alloc_def two_lists_def)
  then have r: "resolve_markers empty_symbols_args ?S = None"
    by (simp add: resolve_markers_unfold symbols_ref_def empty_symbols_args_def default_args_def)
  from v r have "equity_chart_with_signals empty_symbols_args ?S = None"
    by (simp add: equity_chart_with_signals_def)
  with v r show ?thesis
    by (simp add: original_symbols_def empty_symbols_args_def default_args_def two_lists_def)
qed

text \<open>
  Claim C2 fails on the code. The call with 5 signals and caller-supplied lists of
  length 2 returns a figure and leaves both lists of the caller with 8 entries:
  \<open>list.extend\<close> works on the caller's objects, not on copies.
\<close>

theorem caller_marker_lists_extended:
  "objs (two_lists [''star'', ''hexagon''] [''red'', ''blue'']) 0 = [''star'', ''hexagon'']
   \<and> objs (two_lists [''star'', ''hexagon''] [''red'', ''blue'']) 1 = [''red'', ''blue'']
   \<and> map_option (\<lambda>r. (isl (fst r), objs (snd r) 0, objs (snd r) 1))
        (equity_chart_with_signals padded_args (two_lists [''star'', ''hexagon''] [''red'', ''blue'']))
      = Some (False,
          [''star'', ''hexagon'', ''star'', ''hexagon'', ''star'', ''hexagon'', ''star'', ''hexagon''],
          [''red'', ''blue'', ''red'', ''blue'', ''red'', ''blue'', ''red'', ''blue''])"
  by (simp add: eval_call padded_args_def upt_conv_Cons)

text \<open>
  Claim C3 fails on the code. The call with one signal and an empty color list passes
  the validation and never returns: the second loop doubles an empty list forever.
\<close>

theorem empty_colors_call_never_returns:
  "validate empty_colors_args = None
   \<and> equity_chart_with_signals empty_colors_args (two_lists [''star''] []) = None"
proof -
  let ?S = "two_lists [''star''] []"
  have v: "validate empty_colors_args = None"
    by (simp add: validate_def empty_colors_args_def default_args_def)
  have l1: "extend_loop (next_ref ?S) 1 (with_defaults ?S) = Some (with_defaults ?S)"
    by (rule extend_loop_done) (simp add: with_defaults_simps default_symbols_def)
  have l2: "extend_loop 1 1 (with_defaults ?S) = None"
    by (rule extend_loop_diverges) (simp_all add: with_defaults_def alloc_def two_lists_def)
  from l1 l2 have "resolve_markers empty_colors_args ?S = None"
    by (simp add: resolve_markers_unfold symbols_ref_def colors_ref_def empty_colors_args_def
        default_args_def)
  with v show ?thesis by (simp add: equity_chart_with_signals_def)
qed

end
